theory Spec2Isabelle
  imports Complex_Main
begin

section \<open>Report generation of \<open>qtf_mcp/research.py\<close>\<close>

text \<open>
  The module turns a bundle of price, volume and fundamentals arrays into a markdown
  report. Four builders print to one \<open>StringIO\<close>, in the order basic facts, trading
  data, technical indicators, fundamentals; \<open>build_stock_data\<close> runs them and returns the
  text. The loader \<open>load_raw_data\<close>, which fetches the bundle, is outside the embedding.

  Conventions of the embedding:
  \<^item> A float64 array of the bundle is a \<open>real list\<close> of finite values. Rounding, overflow
    and the sign of zero are not modelled. A computed value is a \<open>float\<close>, that is a
    \<open>real option\<close>: \<open>None\<close> stands for \<open>inf\<close> or \<open>nan\<close>, which numpy gives for a
    division by zero (with a warning, not an exception) and for the mean of an empty
    array.
  \<^item> An exception is the left summand of \<open>error + 'a\<close>.
  \<^item> The printed text is kept structured: a line is a list of tokens, and a token of a
    number records the format specification the f-string applies to it.
  \<^item> The Chinese literals of the source are written as ASCII glosses, one per literal;
    the noise keywords of \<open>filter_sector\<close>, whose bytes matter, are their UTF-8 bytes.
  \<^item> Everything imported from outside the module (the clock conversion, the symbol
    lookup, the indicator routines) is a field of the record \<open>env\<close>, passed to the
    builders that call it. They are taken to return without touching their arguments.
\<close>

subsection \<open>Values and errors\<close>

datatype error = IndexError | ValueError

type_synonym float = "real option"

definition try_bind :: "error + 'a \<Rightarrow> ('a \<Rightarrow> error + 'b) \<Rightarrow> error + 'b" where
  "try_bind m f = (case m of Inl e \<Rightarrow> Inl e | Inr x \<Rightarrow> f x)"

text \<open>A comprehension evaluates its elements left to right; the first exception leaves it.\<close>

fun collect :: "(error + 'a) list \<Rightarrow> error + 'a list" where
  "collect [] = Inr []"
| "collect (m # ms) = try_bind m (\<lambda>x. try_bind (collect ms) (\<lambda>xs. Inr (x # xs)))"

text \<open>\<open>xs[i]\<close>: a negative index counts from the end, an index outside raises.\<close>

definition py_get :: "'a list \<Rightarrow> int \<Rightarrow> error + 'a" where
  "py_get xs i =
     (if 0 \<le> i \<and> i < int (length xs) then Inr (xs ! nat i)
      else if i < 0 \<and> - int (length xs) \<le> i then Inr (xs ! nat (int (length xs) + i))
      else Inl IndexError)"

text \<open>\<open>xs[-p:]\<close> for a positive \<open>p\<close>: the last \<open>p\<close> elements, all of \<open>xs\<close> when it is shorter.\<close>

definition last_n :: "nat \<Rightarrow> 'a list \<Rightarrow> 'a list" where
  "last_n p xs = drop (length xs - p) xs"

text \<open>\<open>range(a, b, -1)\<close> and \<open>range(a, b)\<close>.\<close>

definition range_down :: "int \<Rightarrow> int \<Rightarrow> int list" where
  "range_down a b = map (\<lambda>k. a - int k) [0..<nat (a - b)]"

definition range_up :: "nat \<Rightarrow> nat \<Rightarrow> nat list" where
  "range_up a b = [a..<b]"

text \<open>The reductions of numpy: \<open>max\<close> and \<open>min\<close> of an empty array raise, its mean is nan.\<close>

definition np_max :: "real list \<Rightarrow> error + real" where
  "np_max xs = (case xs of [] \<Rightarrow> Inl ValueError | x # r \<Rightarrow> Inr (fold max r x))"

definition np_min :: "real list \<Rightarrow> error + real" where
  "np_min xs = (case xs of [] \<Rightarrow> Inl ValueError | x # r \<Rightarrow> Inr (fold min r x))"

definition np_sum :: "real list \<Rightarrow> real" where
  "np_sum xs = sum_list xs"

definition np_mean :: "real list \<Rightarrow> float" where
  "np_mean xs = (if xs = [] then None else Some (sum_list xs / real (length xs)))"

text \<open>Arithmetic on computed values. Every divisor of the module is an array element or a
  constant, never a computed value, so a divisor is a \<open>real\<close>.\<close>

definition fdiv :: "float \<Rightarrow> real \<Rightarrow> float" where
  "fdiv a b = (case a of None \<Rightarrow> None | Some x \<Rightarrow> if b = 0 then None else Some (x / b))"

definition fmul :: "float \<Rightarrow> real \<Rightarrow> float" where
  "fmul a b = map_option (\<lambda>x. x * b) a"

definition fsub :: "float \<Rightarrow> real \<Rightarrow> float" where
  "fsub a b = map_option (\<lambda>x. x - b) a"

subsection \<open>Dates\<close>

record datetime =
  year :: int
  month :: nat
  day :: nat

text \<open>The civil date of a day number (days since 1970-01-01), and with it the
  conversion \<open>datetime.fromtimestamp(ns / 1e9)\<close> of a process whose zone is UTC. The
  builders take the conversion from \<open>env\<close>; this instance serves the examples.\<close>

definition civil_from_days :: "int \<Rightarrow> datetime" where
  "civil_from_days z0 =
     (let z = z0 + 719468;
          era = z div 146097;
          doe = z - era * 146097;
          yoe = (doe - doe div 1460 + doe div 36524 - doe div 146096) div 365;
          doy = doe - (365 * yoe + yoe div 4 - yoe div 100);
          mp = (5 * doy + 2) div 153;
          d = doy - (153 * mp + 2) div 5 + 1;
          m = (if mp < 10 then mp + 3 else mp - 9)
      in \<lparr>year = yoe + era * 400 + (if m \<le> 2 then 1 else 0), month = nat m, day = nat d\<rparr>)"

definition utc_fromtimestamp :: "int \<Rightarrow> datetime" where
  "utc_fromtimestamp ns = civil_from_days (ns div 86400000000000)"

subsection \<open>The input bundle and the environment\<close>

text \<open>The bundle is the dictionary \<open>raw_data\<close>, a record of the keys the builders read:
  \<open>DATE\<close> holds nanosecond timestamps, \<open>SECTOR\<close> the labels, the other keys float arrays,
  and \<open>DS_FINANCE\<close> the first component of \<open>data["_DS_FINANCE"]\<close>, the fundamentals with
  reporting dates and arrays of their own. A key is a field, so every key is present.\<close>

record fin_bundle =
  FIN_DATE :: "int list"
  FIN_MR :: "real list"
  FIN_NP :: "real list"
  FIN_EPS :: "real list"
  FIN_NAVPS :: "real list"
  FIN_ROE :: "real list"

record series_bundle =
  SECTOR :: "string list"
  DATE :: "int list"
  CLOSE :: "real list"
  CLOSE2 :: "real list"
  HIGH :: "real list"
  LOW :: "real list"
  VOLUME :: "real list"
  TCAP :: "real list"
  EPS :: "real list"
  EPSU :: "real list"
  ROE :: "real list"
  DS_FINANCE :: fin_bundle

text \<open>What the module imports: \<open>fromtimestamp env t\<close> is
  \<open>datetime.datetime.fromtimestamp(t / 1e9)\<close>, which depends on the zone of the process;
  \<open>symbol_with_name\<close> is the lookup of \<open>symbols\<close>; \<open>KDJ\<close> and \<open>MACD\<close> are those of
  \<open>qtf.indicators\<close>, \<open>RSI\<close> is \<open>talib.RSI\<close> and \<open>BBANDS_T3\<close> is \<open>talib.BBANDS\<close> with the
  moving average T3. A column they return may hold nan.\<close>

record env =
  fromtimestamp :: "int \<Rightarrow> datetime"
  symbol_with_name :: "string list \<Rightarrow> (string \<times> string) list"
  KDJ :: "real list \<Rightarrow> real list \<Rightarrow> real list \<Rightarrow> nat \<Rightarrow> nat
            \<Rightarrow> float list \<times> float list \<times> float list"
  MACD :: "real list \<Rightarrow> nat \<Rightarrow> nat \<Rightarrow> nat \<Rightarrow> float list \<times> float list"
  RSI :: "real list \<Rightarrow> nat \<Rightarrow> float list"
  BBANDS_T3 :: "real list \<Rightarrow> float list \<times> float list \<times> float list"

subsection \<open>The output stream\<close>

datatype fmt = F2 | F3 | P2

datatype dfmt = Ymd | Ynd

datatype tok = Lit string | Dec nat | Flt fmt float | Dat dfmt datetime

type_synonym line = "tok list"

record store =
  fp :: "line list"
  data :: series_bundle

text \<open>A statement runs on the store and either raises or leaves a new store.\<close>

fun for_each :: "'a list \<Rightarrow> ('a \<Rightarrow> 'st \<Rightarrow> error + 'st) \<Rightarrow> 'st \<Rightarrow> error + 'st" where
  "for_each [] body s = Inr s"
| "for_each (x # xs) body s =
     (case body x s of Inl e \<Rightarrow> Inl e | Inr s' \<Rightarrow> for_each xs body s')"

definition block :: "('st \<Rightarrow> error + 'st) list \<Rightarrow> 'st \<Rightarrow> error + 'st" where
  "block sts = for_each sts (\<lambda>st. st)"

text \<open>\<open>print(f"...", file=fp)\<close>: the f-string is evaluated, which may raise, then the line
  is appended.\<close>

definition print :: "error + line \<Rightarrow> store \<Rightarrow> error + store" where
  "print l s = (case l of Inl e \<Rightarrow> Inl e | Inr x \<Rightarrow> Inr (s\<lparr>fp := fp s @ [x]\<rparr>))"

text \<open>A statement that reads the bundle takes it from the store when it runs; a local
  variable is bound to the value of an expression, unless evaluating it raises.\<close>

definition reading :: "(series_bundle \<Rightarrow> store \<Rightarrow> error + store) \<Rightarrow> store \<Rightarrow> error + store" where
  "reading f s = f (data s) s"

definition assign :: "error + 'a \<Rightarrow> ('a \<Rightarrow> store \<Rightarrow> error + store) \<Rightarrow> store \<Rightarrow> error + store" where
  "assign m f s = (case m of Inl e \<Rightarrow> Inl e | Inr x \<Rightarrow> f x s)"

text \<open>\<open>sep.join(parts)\<close>, on strings and on token lists alike.\<close>

fun join :: "'a list \<Rightarrow> 'a list list \<Rightarrow> 'a list" where
  "join sep [] = []"
| "join sep [x] = x"
| "join sep (x # y # r) = x @ sep @ join sep (y # r)"

subsection \<open>\<open>filter_sector\<close> and \<open>est_fin_ratio\<close>\<close>

fun starts_with :: "'a list \<Rightarrow> 'a list \<Rightarrow> bool" where
  "starts_with [] s = True"
| "starts_with (k # ks) [] = False"
| "starts_with (k # ks) (c # cs) = (k = c \<and> starts_with ks cs)"

fun contains :: "'a list \<Rightarrow> 'a list \<Rightarrow> bool" where
  "contains k [] = (k = [])"
| "contains k (c # cs) = (starts_with k (c # cs) \<or> contains k cs)"

text \<open>The list \<open>keywords\<close> of the source: MSCI, and four Chinese words as UTF-8 bytes.\<close>

definition noise_keywords :: "string list" where
  "noise_keywords =
     [''MSCI'',
      [CHR 0xE6, CHR 0xA0, CHR 0x87, CHR 0xE6, CHR 0x99, CHR 0xAE],
      [CHR 0xE5, CHR 0x90, CHR 0x8C, CHR 0xE8, CHR 0x8A, CHR 0xB1, CHR 0xE9, CHR 0xA1, CHR 0xBA],
      [CHR 0xE8, CHR 0x9E, CHR 0x8D, CHR 0xE8, CHR 0xB5, CHR 0x84,
       CHR 0xE8, CHR 0x9E, CHR 0x8D, CHR 0xE5, CHR 0x88, CHR 0xB8],
      [CHR 0xE6, CHR 0xB2, CHR 0xAA, CHR 0xE8, CHR 0x82, CHR 0xA1, CHR 0xE9, CHR 0x80, CHR 0x9A]]"

definition filter_sector :: "string list \<Rightarrow> string list" where
  "filter_sector sectors = filter (\<lambda>s. \<not> list_ex (\<lambda>k. contains k s) noise_keywords) sectors"

definition est_fin_ratio :: "datetime \<Rightarrow> real" where
  "est_fin_ratio last_fin_date =
     (if month last_fin_date = 12 then 1
      else if month last_fin_date = 9 then 0.75
      else if month last_fin_date = 6 then 0.5
      else if month last_fin_date = 3 then 0.25
      else 0)"

subsection \<open>\<open>build_basic_data\<close>\<close>

definition pe_line :: "float \<Rightarrow> line" where
  "pe_line v = [Lit ''- price-earnings ratio: '', Flt F2 v]"

definition pb_line :: "float \<Rightarrow> line" where
  "pb_line v = [Lit ''- price-book ratio: '', Flt F2 v]"

definition build_basic_data :: "env \<Rightarrow> string \<Rightarrow> store \<Rightarrow> error + store" where
  "build_basic_data env symbol =
     block
       [print (Inr [Lit ''# basic data'']),
        print (Inr []),
        reading (\<lambda>raw.
          assign (py_get (symbol_with_name env [symbol]) 0) (\<lambda>(symbol', name).
          let sector = join '' '' (filter_sector (SECTOR raw)) in
          assign (py_get (DATE raw) (- 1)) (\<lambda>t.
          let data_date = fromtimestamp env t;
              fin = DS_FINANCE raw in
          assign (py_get (FIN_DATE fin) (- 1)) (\<lambda>ft.
          let last_fin_date = fromtimestamp env ft;
              fin_ratio = est_fin_ratio last_fin_date in
          block
            [print (Inr [Lit ''- symbol: '', Lit symbol']),
             print (Inr [Lit ''- name: '', Lit name]),
             print (Inr [Lit ''- data date: '', Dat Ymd data_date]),
             print (Inr [Lit ''- sectors: '', Lit sector]),
             reading (\<lambda>raw. print
               (try_bind (py_get (CLOSE2 raw) (- 1)) (\<lambda>c.
                try_bind (py_get (EPS raw) (- 1)) (\<lambda>e.
                Inr (pe_line (fmul (fdiv (Some c) e) fin_ratio)))))),
             reading (\<lambda>raw. print
               (try_bind (py_get (CLOSE2 raw) (- 1)) (\<lambda>c.
                try_bind (py_get (EPSU raw) (- 1)) (\<lambda>e.
                Inr (pb_line (fmul (fdiv (Some c) e) fin_ratio)))))),
             reading (\<lambda>raw. print
               (try_bind (py_get (ROE raw) (- 1)) (\<lambda>r.
                Inr [Lit ''- return on equity: '', Flt F2 (Some r)]))),
             print (Inr [])]))))]"

subsection \<open>\<open>build_trading_data\<close>\<close>

definition price_today :: "float \<Rightarrow> float \<Rightarrow> float \<Rightarrow> line" where
  "price_today c h l =
     [Lit ''- today: '', Flt F3 c, Lit '' high: '', Flt F3 h, Lit '' low: '', Flt F3 l]"

definition price_window :: "nat \<Rightarrow> float \<Rightarrow> float \<Rightarrow> float \<Rightarrow> line" where
  "price_window p m h l =
     [Lit ''- '', Dec p, Lit ''-day mean price: '', Flt F3 m,
      Lit '' high: '', Flt F3 h, Lit '' low: '', Flt F3 l]"

definition volume_window :: "nat \<Rightarrow> float \<Rightarrow> line" where
  "volume_window p v = [Lit ''- '', Dec p, Lit ''-day mean volume (10k lots): '', Flt F2 v]"

definition build_trading_data :: "store \<Rightarrow> error + store" where
  "build_trading_data =
     reading (\<lambda>raw.
       let close = CLOSE raw;
           tcap = TCAP raw;
           volume = VOLUME raw;
           high = HIGH raw;
           low = LOW raw;
           periods = filter (\<lambda>n. n \<le> length close) [5, 20, 60, 120, 240]
       in block
         [print (Inr [Lit ''# trading data'']),
          print (Inr []),
          print (Inr [Lit ''## price'']),
          print
            (try_bind (py_get close (- 1)) (\<lambda>c.
             try_bind (py_get high (- 1)) (\<lambda>h.
             try_bind (py_get low (- 1)) (\<lambda>l.
             Inr (price_today (Some c) (Some h) (Some l)))))),
          for_each periods (\<lambda>p. print
            (try_bind (np_max (last_n p high)) (\<lambda>h.
             try_bind (np_min (last_n p low)) (\<lambda>l.
             Inr (price_window p (np_mean (last_n p close)) (Some h) (Some l)))))),
          print (Inr []),
          print (Inr [Lit ''## amplitude'']),
          print
            (try_bind (py_get high (- 1)) (\<lambda>h.
             try_bind (py_get low (- 2)) (\<lambda>l.
             Inr [Lit ''- today: '', Flt P2 (fsub (fdiv (Some h) l) 1)]))),
          for_each periods (\<lambda>p. print
            (try_bind (np_max (last_n p high)) (\<lambda>h.
             try_bind (np_min (last_n p low)) (\<lambda>l.
             Inr [Lit ''- '', Dec p, Lit ''-day amplitude: '',
                  Flt P2 (fsub (fdiv (Some h) l) 1)])))),
          print (Inr []),
          print (Inr [Lit ''## change'']),
          print
            (try_bind (py_get close (- 1)) (\<lambda>c.
             try_bind (py_get close (- 2)) (\<lambda>c2.
             Inr [Lit ''- today: '', Flt P2 (fsub (fdiv (Some c) c2) 1)]))),
          for_each periods (\<lambda>p. print
            (try_bind (py_get close (- 1)) (\<lambda>c.
             try_bind (py_get close (- int p)) (\<lambda>cp.
             Inr [Lit ''- '', Dec p, Lit ''-day cumulative: '',
                  Flt F2 (fmul (fsub (fdiv (Some c) cp) 1) 100), Lit ''%''])))),
          print (Inr []),
          print (Inr [Lit ''## volume (10k lots)'']),
          print
            (try_bind (py_get volume (- 1)) (\<lambda>v.
             Inr [Lit ''- today: '', Flt F2 (fdiv (Some v) 1000000)])),
          for_each periods (\<lambda>p. print
            (Inr (volume_window p (fdiv (np_mean (last_n p volume)) 1000000)))),
          print (Inr []),
          print (Inr [Lit ''## turnover'']),
          print
            (try_bind (py_get volume (- 1)) (\<lambda>v.
             try_bind (py_get tcap (- 1)) (\<lambda>t.
             Inr [Lit ''- today: '', Flt P2 (fdiv (Some v) t)]))),
          for_each periods (\<lambda>p. block
            [print
               (try_bind (py_get tcap (- 1)) (\<lambda>t.
                Inr [Lit ''- '', Dec p, Lit ''-day mean turnover: '',
                     Flt P2 (fdiv (np_mean (last_n p volume)) t)])),
             print
               (try_bind (py_get tcap (- 1)) (\<lambda>t.
                Inr [Lit ''- '', Dec p, Lit ''-day total turnover: '',
                     Flt P2 (fdiv (Some (np_sum (last_n p volume))) t)]))]),
          print (Inr [])])"

subsection \<open>\<open>build_technical_data\<close>\<close>

definition tech_row :: "datetime \<Rightarrow> float list \<Rightarrow> line" where
  "tech_row d vs =
     [Lit ''| '', Dat Ymd d, Lit ''|''] @ join [Lit '' | ''] (map (\<lambda>v. [Flt F2 v]) vs)
       @ [Lit '' |'']"

definition build_technical_data :: "env \<Rightarrow> store \<Rightarrow> error + store" where
  "build_technical_data env =
     reading (\<lambda>raw.
       let close = CLOSE raw;
           high = HIGH raw;
           low = LOW raw
       in if length close < 30 then Inr
          else block
            [print (Inr [Lit ''# technical indicators (last 30 days)'']),
             print (Inr []),
             reading (\<lambda>raw.
               case KDJ env close high low 9 3 of (kdj_k, kdj_d, kdj_j) \<Rightarrow>
               case MACD env close 12 26 9 of (macd_diff, macd_dea) \<Rightarrow>
               let rsi_6 = RSI env close 6;
                   rsi_12 = RSI env close 12;
                   rsi_24 = RSI env close 24
               in case BBANDS_T3 env close of (bb_upper, bb_middle, bb_lower) \<Rightarrow>
               let date = map (fromtimestamp env) (DATE raw);
                   columns =
                     [(''KDJ.K'', kdj_k), (''KDJ.D'', kdj_d), (''KDJ.J'', kdj_j),
                      (''MACD DIF'', macd_diff), (''MACD DEA'', macd_dea),
                      (''RSI(6)'', rsi_6), (''RSI(12)'', rsi_12), (''RSI(24)'', rsi_24),
                      (''BBands Upper'', bb_upper), (''BBands Middle'', bb_middle),
                      (''BBands Lower'', bb_lower)]
               in block
                 [print (Inr [Lit (''| '' @ join '' | '' (''date'' # map fst columns) @ '' |'')]),
                  print (Inr [Lit (concat (replicate (Suc (length columns)) ''| --- '') @ ''|'')]),
                  for_each (range_down (- 1) (max (- int (length date)) (- 31))) (\<lambda>i. print
                    (try_bind (py_get date i) (\<lambda>d.
                     try_bind (collect (map (\<lambda>c. py_get (snd c) i) columns)) (\<lambda>vs.
                     Inr (tech_row d vs))))),
                  print (Inr [])])])"

subsection \<open>\<open>build_financial_data\<close>\<close>

type_synonym fin_row = "datetime \<times> real list"

definition fields :: "(string \<times> (fin_bundle \<Rightarrow> real list) \<times> real) list" where
  "fields =
     [(''revenue (100m yuan)'', FIN_MR, 10000),
      (''net profit (100m yuan)'', FIN_NP, 10000),
      (''earnings per share'', FIN_EPS, 1),
      (''net assets per share'', FIN_NAVPS, 1),
      (''return on equity'', FIN_ROE, 1)]"

text \<open>One turn of the loop over the reporting dates: \<open>rows\<close> and \<open>years\<close> are its state. A
  row is the date, printed as its year, and the five scaled values.\<close>

definition fin_step :: "env \<Rightarrow> fin_bundle \<Rightarrow> nat \<Rightarrow> int \<Rightarrow> fin_row list \<times> nat
    \<Rightarrow> error + fin_row list \<times> nat" where
  "fin_step env fin max_years i st =
     (case st of (rows, years) \<Rightarrow>
      try_bind (py_get (FIN_DATE fin) i) (\<lambda>t.
      let date = fromtimestamp env t in
      if month date \<noteq> 12 \<or> years \<ge> max_years then Inr (rows, years)
      else
        try_bind
          (collect (map (\<lambda>(_, field, divisor).
             try_bind (py_get (field fin) i) (\<lambda>v. Inr (v / divisor))) fields)) (\<lambda>vals.
        Inr (rows @ [(date, vals)], years + 1))))"

definition fin_rows :: "env \<Rightarrow> fin_bundle \<Rightarrow> error + fin_row list \<times> nat" where
  "fin_rows env fin =
     for_each (range_down (int (length (FIN_DATE fin)) - 1) 0) (fin_step env fin 5) ([], 0)"

definition fin_header :: "fin_row list \<Rightarrow> line" where
  "fin_header rows =
     Lit ''| metric | '' # join [Lit '' ''] (map (\<lambda>r. [Dat Ynd (fst r), Lit '' |'']) rows)"

definition fin_metric :: "string \<Rightarrow> real list \<Rightarrow> line" where
  "fin_metric name vs =
     [Lit ''| '', Lit name, Lit '' | '']
       @ join [Lit '' ''] (map (\<lambda>v. [Flt F2 (Some v), Lit '' |'']) vs)"

definition build_financial_data :: "env \<Rightarrow> store \<Rightarrow> error + store" where
  "build_financial_data env =
     reading (\<lambda>raw.
       let fin = DS_FINANCE raw in
       block
         [print (Inr [Lit ''# financial data'']),
          print (Inr []),
          assign (fin_rows env fin) (\<lambda>(rows, years).
          block
            [print (Inr (fin_header rows)),
             print (Inr [Lit (concat (replicate (length rows + 1) ''| --- '') @ ''|'')]),
             assign (py_get rows 0) (\<lambda>r0.
               for_each (range_up 1 (Suc (length (snd r0)))) (\<lambda>i. print
                 (try_bind (py_get fields (int i - 1)) (\<lambda>f.
                  try_bind (collect (map (\<lambda>r. py_get (snd r) (int i - 1)) rows)) (\<lambda>vs.
                  Inr (fin_metric (fst f) vs)))))),
             print (Inr [])])])"

subsection \<open>\<open>build_stock_data\<close>\<close>

definition run_builders :: "env \<Rightarrow> string \<Rightarrow> store \<Rightarrow> error + store" where
  "run_builders env symbol =
     block
       [build_basic_data env symbol,
        build_trading_data,
        build_technical_data env,
        build_financial_data env]"

text \<open>\<open>md\<close> starts empty; the report is what the stream holds after the last builder.\<close>

definition build_stock_data :: "env \<Rightarrow> string \<Rightarrow> series_bundle \<Rightarrow> error + line list" where
  "build_stock_data env symbol raw_data =
     (case run_builders env symbol \<lparr>fp = [], data = raw_data\<rparr> of
        Inl e \<Rightarrow> Inl e
      | Inr s \<Rightarrow> Inr (fp s))"

subsection \<open>Closed forms for the proofs\<close>

text \<open>The window sizes a series of \<open>N\<close> observations supports.\<close>

definition periods_of :: "nat \<Rightarrow> nat list" where
  "periods_of N = filter (\<lambda>n. n \<le> N) [5, 20, 60, 120, 240]"

text \<open>The row the loop of \<open>build_financial_data\<close> builds at index \<open>i\<close>, the test it
  applies to the reporting date there, and the rows it has collected when it ends.\<close>

definition fin_row_at :: "env \<Rightarrow> fin_bundle \<Rightarrow> nat \<Rightarrow> fin_row" where
  "fin_row_at env fin i =
     (fromtimestamp env (FIN_DATE fin ! i),
      map (\<lambda>(_, field, divisor). field fin ! i / divisor) fields)"

definition year_end :: "env \<Rightarrow> fin_bundle \<Rightarrow> nat \<Rightarrow> bool" where
  "year_end env fin i = (month (fromtimestamp env (FIN_DATE fin ! i)) = 12)"

definition year_end_rows :: "env \<Rightarrow> fin_bundle \<Rightarrow> fin_row list" where
  "year_end_rows env fin =
     take 5 (map (fin_row_at env fin)
       (filter (year_end env fin) (rev [1..<length (FIN_DATE fin)])))"

text \<open>The eleven indicator columns of the technical table, in the order of its header.\<close>

definition indicator_columns :: "env \<Rightarrow> real list \<Rightarrow> real list \<Rightarrow> real list \<Rightarrow> float list list" where
  "indicator_columns env close high low =
     (case KDJ env close high low 9 3 of (kdj_k, kdj_d, kdj_j) \<Rightarrow>
      case MACD env close 12 26 9 of (macd_diff, macd_dea) \<Rightarrow>
      case BBANDS_T3 env close of (bb_upper, bb_middle, bb_lower) \<Rightarrow>
        [kdj_k, kdj_d, kdj_j, macd_diff, macd_dea,
         RSI env close 6, RSI env close 12, RSI env close 24,
         bb_upper, bb_middle, bb_lower])"

text \<open>The format specifications a line applies, left to right, and the lines whose
  numbers are either all \<open>.2f\<close> or \<open>.2%\<close>, or those of a price line.\<close>

fun fmts_of :: "line \<Rightarrow> fmt list" where
  "fmts_of [] = []"
| "fmts_of (Flt f v # ts) = f # fmts_of ts"
| "fmts_of (Lit s # ts) = fmts_of ts"
| "fmts_of (Dec n # ts) = fmts_of ts"
| "fmts_of (Dat f d # ts) = fmts_of ts"

definition format_ok :: "line \<Rightarrow> bool" where
  "format_ok l =
     (set (fmts_of l) \<subseteq> {F2, P2} \<or> (\<exists>c h lo. l = price_today c h lo)
      \<or> (\<exists>p m h lo. l = price_window p m h lo))"

text \<open>A statement writes lines of a kind when, unless it raises, all it does to the store
  is append lines of that kind to the stream.\<close>

definition writes :: "(line \<Rightarrow> bool) \<Rightarrow> (store \<Rightarrow> error + store) \<Rightarrow> bool" where
  "writes P st = (\<forall>s s'. st s = Inr s' \<longrightarrow> (\<exists>ls. s' = s\<lparr>fp := fp s @ ls\<rparr> \<and> list_all P ls))"

subsection \<open>Example inputs\<close>

text \<open>An environment for the examples: UTC clock, a lookup that knows every symbol, and
  indicator routines that return full-length columns of nan.\<close>

definition example_env :: env where
  "example_env =
     \<lparr>fromtimestamp = utc_fromtimestamp,
      symbol_with_name = map (\<lambda>c. (c, ''Example Bank'')),
      KDJ = (\<lambda>c h l n m. (map (\<lambda>_. None) c, map (\<lambda>_. None) c, map (\<lambda>_. None) c)),
      MACD = (\<lambda>c a b n. (map (\<lambda>_. None) c, map (\<lambda>_. None) c)),
      RSI = (\<lambda>c n. map (\<lambda>_. None) c),
      BBANDS_T3 = (\<lambda>c. (map (\<lambda>_. None) c, map (\<lambda>_. None) c, map (\<lambda>_. None) c))\<rparr>"

text \<open>Reporting dates, in nanoseconds since the epoch, at 00:00 UTC.\<close>

definition ts_2022_12_31 :: int where "ts_2022_12_31 = 1672444800000000000"
definition ts_2023_03_31 :: int where "ts_2023_03_31 = 1680220800000000000"
definition ts_2023_06_30 :: int where "ts_2023_06_30 = 1688083200000000000"
definition ts_2023_09_30 :: int where "ts_2023_09_30 = 1696032000000000000"
definition ts_2023_12_31 :: int where "ts_2023_12_31 = 1703980800000000000"
definition ts_2024_01_31 :: int where "ts_2024_01_31 = 1706659200000000000"

definition example_fin :: "int list \<Rightarrow> fin_bundle" where
  "example_fin dates =
     \<lparr>FIN_DATE = dates,
      FIN_MR = map (\<lambda>_. 250000) dates,
      FIN_NP = map (\<lambda>_. 30000) dates,
      FIN_EPS = map (\<lambda>_. 2) dates,
      FIN_NAVPS = map (\<lambda>_. 5) dates,
      FIN_ROE = map (\<lambda>_. 12) dates\<rparr>"

text \<open>A bundle of daily observations from 2024-01-02 on, with the given closes, a constant
  per-share earnings figure and the given reporting dates.\<close>

definition example_bundle :: "real list \<Rightarrow> real \<Rightarrow> int list \<Rightarrow> series_bundle" where
  "example_bundle closes eps fin_dates =
     \<lparr>SECTOR = [''Banks'', ''MSCI China''],
      DATE = map (\<lambda>k. 1704153600000000000 + 86400000000000 * int k) [0..<length closes],
      CLOSE = closes,
      CLOSE2 = closes,
      HIGH = map (\<lambda>c. c + 1) closes,
      LOW = map (\<lambda>c. c - 1) closes,
      VOLUME = map (\<lambda>_. 2000000) closes,
      TCAP = map (\<lambda>_. 100000000) closes,
      EPS = map (\<lambda>_. eps) closes,
      EPSU = map (\<lambda>_. 5) closes,
      ROE = map (\<lambda>_. 12) closes,
      DS_FINANCE = example_fin fin_dates\<rparr>"

text \<open>Six observations with closes 10 to 15, and reports of December 2022, September 2023
  and December 2023.\<close>

definition example_history :: series_bundle where
  "example_history =
     example_bundle [10, 11, 12, 13, 14, 15] 2 [ts_2022_12_31, ts_2023_09_30, ts_2023_12_31]"

section \<open>Basic facts of the combinators\<close>

lemma try_bind_Inr [simp]: "try_bind (Inr x) f = f x"
  and try_bind_Inl [simp]: "try_bind (Inl e) f = Inl e"
  by (simp_all add: try_bind_def)

lemma block_Nil [simp]: "block [] s = Inr s"
  by (simp add: block_def)

lemma block_Cons [simp]:
  "block (st # sts) s = (case st s of Inl e \<Rightarrow> Inl e | Inr s' \<Rightarrow> block sts s')"
  unfolding block_def by simp

lemma print_Inr [simp]: "print (Inr l) s = Inr (s\<lparr>fp := fp s @ [l]\<rparr>)"
  and print_Inl [simp]: "print (Inl e) s = Inl e"
  by (simp_all add: print_def)

lemma reading_simp [simp]: "reading f s = f (data s) s"
  by (simp add: reading_def)

lemma assign_Inr [simp]: "assign (Inr x) f s = f x s"
  and assign_Inl [simp]: "assign (Inl e) f s = Inl e"
  by (simp_all add: assign_def)

text \<open>An exception that leaves a loop or a block left one of its statements; a statement
  that always raises, once in a block, makes the block raise.\<close>

lemma for_each_error:
  "for_each xs body s = Inl e \<Longrightarrow> \<exists>x\<in>set xs. \<exists>s'. body x s' = Inl e"
  by (induction xs arbitrary: s) (auto split: sum.splits)

lemma for_each_stuck:
  assumes "x \<in> set xs" and "\<And>s'. \<exists>e. body x s' = Inl e"
  shows "\<exists>e. for_each xs body s = Inl e"
  using assms(1)
proof (induction xs arbitrary: s)
  case Nil
  then show ?case by simp
next
  case (Cons y ys)
  show ?case
  proof (cases "body y s")
    case (Inl e)
    then show ?thesis by simp
  next
    case (Inr s1)
    show ?thesis
    proof (cases "x = y")
      case True
      with assms(2) [of s] Inr show ?thesis by simp
    next
      case False
      with Cons have "\<exists>e. for_each ys body s1 = Inl e" by simp
      with Inr show ?thesis by simp
    qed
  qed
qed

lemma block_error: "block sts s = Inl e \<Longrightarrow> \<exists>st\<in>set sts. \<exists>s'. st s' = Inl e"
  unfolding block_def by (rule for_each_error)

lemma block_stuck:
  "st \<in> set sts \<Longrightarrow> (\<And>s'. \<exists>e. st s' = Inl e) \<Longrightarrow> \<exists>e. block sts s = Inl e"
  unfolding block_def by (rule for_each_stuck)

lemma block_only:
  assumes "list_all (\<lambda>st. \<forall>s' e'. st s' = Inl e' \<longrightarrow> e' = E) sts"
    and "block sts s = Inl e"
  shows "e = E"
  using block_error [OF assms(2)] assms(1) by (auto simp: list_all_iff)

lemma print_error: "print l s = Inl e \<longleftrightarrow> l = Inl e"
  by (cases l) simp_all

lemma py_get_last: "xs \<noteq> [] \<Longrightarrow> py_get xs (- 1) = Inr (last xs)"
  by (cases xs rule: rev_cases) (auto simp: py_get_def nth_append)

lemma py_get_minus2_short: "length xs < 2 \<Longrightarrow> py_get xs (- 2) = Inl IndexError"
  by (auto simp: py_get_def)

lemma py_get_error: "py_get xs i = Inl e \<Longrightarrow> e = IndexError"
  by (auto simp: py_get_def split: if_splits)

lemma example_dates:
  "utc_fromtimestamp ts_2022_12_31 = \<lparr>year = 2022, month = 12, day = 31\<rparr>"
  "utc_fromtimestamp ts_2023_03_31 = \<lparr>year = 2023, month = 3, day = 31\<rparr>"
  "utc_fromtimestamp ts_2023_06_30 = \<lparr>year = 2023, month = 6, day = 30\<rparr>"
  "utc_fromtimestamp ts_2023_09_30 = \<lparr>year = 2023, month = 9, day = 30\<rparr>"
  "utc_fromtimestamp ts_2023_12_31 = \<lparr>year = 2023, month = 12, day = 31\<rparr>"
  "utc_fromtimestamp ts_2024_01_31 = \<lparr>year = 2024, month = 1, day = 31\<rparr>"
  by code_simp+

lemma example_day:
  "utc_fromtimestamp 1704240000000000000 = \<lparr>year = 2024, month = 1, day = 3\<rparr>"
  by code_simp

lemma example_sectors: "join '' '' (filter_sector [''Banks'', ''MSCI China'']) = ''Banks''"
  by code_simp

section \<open>The annualization ratio\<close>

text \<open>
  C5. The ratio \<open>est_fin_ratio\<close> gives for a reporting date is 1 when its month is 12,
  0.75 when 9, 0.5 when 6, 0.25 when 3, and 0 for every other month; the five cases are
  a table, with nothing in between.
\<close>

theorem est_fin_ratio_table:
  "(month d = 12 \<longrightarrow> est_fin_ratio d = 1) \<and>
   (month d = 9 \<longrightarrow> est_fin_ratio d = 3 / 4) \<and>
   (month d = 6 \<longrightarrow> est_fin_ratio d = 1 / 2) \<and>
   (month d = 3 \<longrightarrow> est_fin_ratio d = 1 / 4) \<and>
   (month d \<notin> {3, 6, 9, 12} \<longrightarrow> est_fin_ratio d = 0)"
  by (simp add: est_fin_ratio_def)

text \<open>The table at five reporting dates, one for each of its rows.\<close>

theorem est_fin_ratio_table_witness:
  "est_fin_ratio (utc_fromtimestamp ts_2023_12_31) = 1 \<and>
   est_fin_ratio (utc_fromtimestamp ts_2023_09_30) = 3 / 4 \<and>
   est_fin_ratio (utc_fromtimestamp ts_2023_06_30) = 1 / 2 \<and>
   est_fin_ratio (utc_fromtimestamp ts_2023_03_31) = 1 / 4 \<and>
   est_fin_ratio (utc_fromtimestamp ts_2024_01_31) = 0"
  using est_fin_ratio_table [of "utc_fromtimestamp ts_2023_12_31"]
    est_fin_ratio_table [of "utc_fromtimestamp ts_2023_09_30"]
    est_fin_ratio_table [of "utc_fromtimestamp ts_2023_06_30"]
    est_fin_ratio_table [of "utc_fromtimestamp ts_2023_03_31"]
    est_fin_ratio_table [of "utc_fromtimestamp ts_2024_01_31"]
  by (simp add: example_dates)

section \<open>The basic-facts section\<close>

text \<open>When the lookup knows the symbol and no array the section reads is empty, the
  section is ten lines.\<close>

lemma basic_ok:
  assumes "symbol_with_name env [symbol] = (sy, nm) # others"
    and "DATE (data s) \<noteq> []" and "FIN_DATE (DS_FINANCE (data s)) \<noteq> []"
    and "CLOSE2 (data s) \<noteq> []" and "EPS (data s) \<noteq> []" and "EPSU (data s) \<noteq> []"
    and "ROE (data s) \<noteq> []"
  shows "build_basic_data env symbol s =
    Inr (s\<lparr>fp := fp s @
      [[Lit ''# basic data''], [],
       [Lit ''- symbol: '', Lit sy],
       [Lit ''- name: '', Lit nm],
       [Lit ''- data date: '', Dat Ymd (fromtimestamp env (last (DATE (data s))))],
       [Lit ''- sectors: '', Lit (join '' '' (filter_sector (SECTOR (data s))))],
       pe_line (fmul (fdiv (Some (last (CLOSE2 (data s)))) (last (EPS (data s))))
          (est_fin_ratio (fromtimestamp env (last (FIN_DATE (DS_FINANCE (data s))))))),
       pb_line (fmul (fdiv (Some (last (CLOSE2 (data s)))) (last (EPSU (data s))))
          (est_fin_ratio (fromtimestamp env (last (FIN_DATE (DS_FINANCE (data s))))))),
       [Lit ''- return on equity: '', Flt F2 (Some (last (ROE (data s))))],
       []]\<rparr>)"
  using assms by (simp add: build_basic_data_def Let_def py_get_last py_get_def [of "_ # _" 0])



text \<open>
  C10 as stated: whenever the latest reporting date falls in a month other than 3, 6, 9
  or 12, both ratios are reported as 0.00, whatever the price and the per-share values.
  It fails for a per-share value of zero: the quotient is then not finite, and neither is
  its product with the ratio 0. Here the latest report is of January and the earnings per
  share are 0.
\<close>

theorem zero_eps_counterexample:
  "map_sum id fp
     (build_basic_data example_env ''600000''
        \<lparr>fp = [], data = example_bundle [10, 12] 0 [ts_2023_12_31, ts_2024_01_31]\<rparr>)
   = Inr [[Lit ''# basic data''], [],
          [Lit ''- symbol: '', Lit ''600000''],
          [Lit ''- name: '', Lit ''Example Bank''],
          [Lit ''- data date: '', Dat Ymd \<lparr>year = 2024, month = 1, day = 3\<rparr>],
          [Lit ''- sectors: '', Lit ''Banks''],
          [Lit ''- price-earnings ratio: '', Flt F2 None],
          [Lit ''- price-book ratio: '', Flt F2 (Some 0)],
          [Lit ''- return on equity: '', Flt F2 (Some 12)],
          []]"
  by (subst basic_ok [where sy = "''600000''" and nm = "''Example Bank''" and others = "[]"])
    (simp_all add: example_env_def example_bundle_def example_fin_def example_dates
      example_sectors example_day est_fin_ratio_def pe_line_def pb_line_def fmul_def fdiv_def)

text \<open>
  C10, amended. Whenever the latest reporting date falls in a month other than 3, 6, 9
  or 12 and the latest per-share values are not zero, the annualization ratio is 0 and
  the value of both ratios in the basic-facts section is zero.
\<close>

theorem basic_ratios_off_quarter:
  assumes "symbol_with_name env [symbol] \<noteq> []"
    and "DATE (data s) \<noteq> []" and "FIN_DATE (DS_FINANCE (data s)) \<noteq> []"
    and "CLOSE2 (data s) \<noteq> []" and "EPS (data s) \<noteq> []" and "EPSU (data s) \<noteq> []"
    and "ROE (data s) \<noteq> []"
    and "last (EPS (data s)) \<noteq> 0" and "last (EPSU (data s)) \<noteq> 0"
    and "month (fromtimestamp env (last (FIN_DATE (DS_FINANCE (data s))))) \<notin> {3, 6, 9, 12}"
  shows "est_fin_ratio (fromtimestamp env (last (FIN_DATE (DS_FINANCE (data s))))) = 0 \<and>
    (\<exists>ls. build_basic_data env symbol s = Inr (s\<lparr>fp := fp s @ ls\<rparr>) \<and>
      (\<forall>v. pe_line v \<in> set ls \<longleftrightarrow> v = Some 0) \<and>
      (\<forall>v. pb_line v \<in> set ls \<longleftrightarrow> v = Some 0))"
proof -
  obtain sy nm others where sym: "symbol_with_name env [symbol] = (sy, nm) # others"
    using assms(1) by (cases "symbol_with_name env [symbol]") auto
  have ratio: "est_fin_ratio (fromtimestamp env (last (FIN_DATE (DS_FINANCE (data s))))) = 0"
    using assms(10) by (simp add: est_fin_ratio_def)
  show ?thesis
    apply (rule conjI [OF ratio])
    apply (subst basic_ok [OF sym assms(2-7)])
    apply (rule exI, rule conjI, rule refl)
    using assms(8,9)
    apply (auto simp: ratio pe_line_def pb_line_def fmul_def fdiv_def)
    done
qed

text \<open>Latest report of January, earnings 2 per share.\<close>

theorem basic_ratios_off_quarter_witness:
  "est_fin_ratio (utc_fromtimestamp ts_2024_01_31) = 0 \<and>
   (\<exists>ls. build_basic_data example_env ''600000''
          \<lparr>fp = [], data = example_bundle [10, 12] 2 [ts_2023_12_31, ts_2024_01_31]\<rparr>
        = Inr \<lparr>fp = ls, data = example_bundle [10, 12] 2 [ts_2023_12_31, ts_2024_01_31]\<rparr> \<and>
     (\<forall>v. pe_line v \<in> set ls \<longleftrightarrow> v = Some 0) \<and>
     (\<forall>v. pb_line v \<in> set ls \<longleftrightarrow> v = Some 0))"
  using basic_ratios_off_quarter [of example_env "''600000''"
      "\<lparr>fp = [], data = example_bundle [10, 12] 2 [ts_2023_12_31, ts_2024_01_31]\<rparr>"]
  by (simp add: example_env_def example_bundle_def example_fin_def example_dates)

section \<open>The trading-data section on a short history\<close>

text \<open>
  C6 as stated: with fewer than two observations the single-step figures signal a
  DataError rather than an index fault. The module has no such error; on one observation
  \<open>low[-2]\<close> is out of range and the index fault leaves the builder.
\<close>

theorem single_observation_counterexample:
  "build_trading_data \<lparr>fp = [], data = example_bundle [10] 2 [ts_2022_12_31, ts_2023_12_31]\<rparr>
     = Inl IndexError"
  by (simp add: build_trading_data_def example_bundle_def Let_def py_get_def)

text \<open>
  C6, amended. For every bundle with fewer than two observations in the close series,
  building the trading-data section raises IndexError.
\<close>

theorem trading_short_history:
  assumes "length (CLOSE (data s)) < 2"
  shows "build_trading_data s = Inl IndexError"
proof -
  have periods: "filter (\<lambda>n. n \<le> length (CLOSE (data s))) [5, 20, 60, 120, 240] = []"
    using assms by simp
  have c2: "py_get (CLOSE (data s)) (- 2) = Inl IndexError"
    using assms by (rule py_get_minus2_short)
  have "\<exists>e. build_trading_data s = Inl e"
    unfolding build_trading_data_def Let_def reading_def periods
    by (rule block_stuck [where st = "print
            (try_bind (py_get (CLOSE (data s)) (- 1)) (\<lambda>c.
             try_bind (py_get (CLOSE (data s)) (- 2)) (\<lambda>c2.
             Inr [Lit ''- today: '', Flt P2 (fsub (fdiv (Some c) c2) 1)])))"])
      (auto simp: c2 print_error try_bind_def split: sum.splits)
  then obtain e where e: "build_trading_data s = Inl e" ..
  have "e = IndexError"
    apply (rule block_only [OF _ e [unfolded build_trading_data_def Let_def reading_def periods]])
    apply (simp only: list.pred_inject simp_thms)
    apply (intro conjI allI impI)
    apply (auto simp: print_error try_bind_def split: sum.splits dest: py_get_error)
    done
  with e show ?thesis by simp
qed

text \<open>No observation at all.\<close>

theorem trading_short_history_witness:
  "length (CLOSE (data \<lparr>fp = [], data = example_bundle [] 2 [ts_2022_12_31, ts_2023_12_31]\<rparr>)) < 2 \<and>
   build_trading_data \<lparr>fp = [], data = example_bundle [] 2 [ts_2022_12_31, ts_2023_12_31]\<rparr>
     = Inl IndexError"
  using trading_short_history
    [of "\<lparr>fp = [], data = example_bundle [] 2 [ts_2022_12_31, ts_2023_12_31]\<rparr>"]
  by (simp add: example_bundle_def)

section \<open>The trading-data section on two or more observations\<close>

lemma py_get_neg:
  "0 < k \<Longrightarrow> k \<le> length xs \<Longrightarrow> py_get xs (- int k) = Inr (xs ! (length xs - k))"
  by (auto simp: py_get_def nat_diff_distrib')

lemma py_get_minus2: "2 \<le> length xs \<Longrightarrow> py_get xs (- 2) = Inr (xs ! (length xs - 2))"
  using py_get_neg [of 2 xs] by simp

lemma np_max_eq: "xs \<noteq> [] \<Longrightarrow> np_max xs = Inr (Max (set xs))"
proof (cases xs)
  case (Cons a r)
  have "fold max r a = Max (set (a # r))"
    by (rule Max.set_eq_fold [symmetric])
  with Cons show ?thesis by (simp add: np_max_def)
qed simp

lemma np_min_eq: "xs \<noteq> [] \<Longrightarrow> np_min xs = Inr (Min (set xs))"
proof (cases xs)
  case (Cons a r)
  have "fold min r a = Min (set (a # r))"
    by (rule Min.set_eq_fold [symmetric])
  with Cons show ?thesis by (simp add: np_min_def)
qed simp

lemma last_n_Nil [simp]: "last_n p xs = [] \<longleftrightarrow> xs = [] \<or> p = 0"
  by (cases xs) (auto simp: last_n_def)

lemma for_each_print:
  assumes "\<And>x. x \<in> set xs \<Longrightarrow> f x = Inr (g x)"
  shows "for_each xs (\<lambda>x. print (f x)) s = Inr (s\<lparr>fp := fp s @ map g xs\<rparr>)"
  using assms by (induction xs arbitrary: s) simp_all

lemma for_each_print2:
  assumes "\<And>x. x \<in> set xs \<Longrightarrow> fa x = Inr (ga x)"
    and "\<And>x. x \<in> set xs \<Longrightarrow> fb x = Inr (gb x)"
  shows "for_each xs (\<lambda>x. block [print (fa x), print (fb x)]) s
    = Inr (s\<lparr>fp := fp s @ concat (map (\<lambda>x. [ga x, gb x]) xs)\<rparr>)"
  using assms by (induction xs arbitrary: s) simp_all

lemma periods_of_pos: "p \<in> set (periods_of N) \<Longrightarrow> 0 < p \<and> p \<le> N"
  by (auto simp: periods_of_def split: if_splits)

lemma trading_ok:
  assumes len: "length (CLOSE (data s)) = N" "length (HIGH (data s)) = N"
      "length (LOW (data s)) = N" "length (VOLUME (data s)) = N" "length (TCAP (data s)) = N"
    and N: "2 \<le> N"
  shows "build_trading_data s = Inr (s\<lparr>fp := fp s @
    [[Lit ''# trading data''], [], [Lit ''## price''],
     price_today (Some (last (CLOSE (data s)))) (Some (last (HIGH (data s))))
       (Some (last (LOW (data s))))]
    @ map (\<lambda>p. price_window p (np_mean (last_n p (CLOSE (data s))))
         (Some (Max (set (last_n p (HIGH (data s))))))
         (Some (Min (set (last_n p (LOW (data s))))))) (periods_of N)
    @ [[], [Lit ''## amplitude''],
       [Lit ''- today: '', Flt P2 (fsub (fdiv (Some (last (HIGH (data s))))
          (LOW (data s) ! (N - 2))) 1)]]
    @ map (\<lambda>p. [Lit ''- '', Dec p, Lit ''-day amplitude: '',
         Flt P2 (fsub (fdiv (Some (Max (set (last_n p (HIGH (data s))))))
           (Min (set (last_n p (LOW (data s)))))) 1)]) (periods_of N)
    @ [[], [Lit ''## change''],
       [Lit ''- today: '', Flt P2 (fsub (fdiv (Some (last (CLOSE (data s))))
          (CLOSE (data s) ! (N - 2))) 1)]]
    @ map (\<lambda>p. [Lit ''- '', Dec p, Lit ''-day cumulative: '',
         Flt F2 (fmul (fsub (fdiv (Some (last (CLOSE (data s))))
           (CLOSE (data s) ! (N - p))) 1) 100), Lit ''%'']) (periods_of N)
    @ [[], [Lit ''## volume (10k lots)''],
       [Lit ''- today: '', Flt F2 (fdiv (Some (last (VOLUME (data s)))) 1000000)]]
    @ map (\<lambda>p. volume_window p (fdiv (np_mean (last_n p (VOLUME (data s)))) 1000000))
        (periods_of N)
    @ [[], [Lit ''## turnover''],
       [Lit ''- today: '', Flt P2 (fdiv (Some (last (VOLUME (data s))))
          (last (TCAP (data s))))]]
    @ concat (map (\<lambda>p.
        [[Lit ''- '', Dec p, Lit ''-day mean turnover: '',
          Flt P2 (fdiv (np_mean (last_n p (VOLUME (data s)))) (last (TCAP (data s))))],
         [Lit ''- '', Dec p, Lit ''-day total turnover: '',
          Flt P2 (fdiv (Some (np_sum (last_n p (VOLUME (data s))))) (last (TCAP (data s))))]])
        (periods_of N))
    @ [[]]\<rparr>)"
proof -
  have ne: "CLOSE (data s) \<noteq> []" "HIGH (data s) \<noteq> []" "LOW (data s) \<noteq> []"
      "VOLUME (data s) \<noteq> []" "TCAP (data s) \<noteq> []"
    using len N by auto
  have two: "py_get (LOW (data s)) (- 2) = Inr (LOW (data s) ! (N - 2))"
      "py_get (CLOSE (data s)) (- 2) = Inr (CLOSE (data s) ! (N - 2))"
    using len N py_get_minus2 [of "LOW (data s)"] py_get_minus2 [of "CLOSE (data s)"] by simp_all
  have per: "filter (\<lambda>n. n \<le> length (CLOSE (data s))) [5, 20, 60, 120, 240] = periods_of N"
    by (simp add: periods_of_def len)
  have cback: "py_get (CLOSE (data s)) (- int p) = Inr (CLOSE (data s) ! (N - p))"
    if "p \<in> set (periods_of N)" for p
    using periods_of_pos [OF that] len py_get_neg [of p "CLOSE (data s)"] by simp
  have pos: "p \<noteq> 0" if "p \<in> set (periods_of N)" for p
    using periods_of_pos [OF that] by simp
  have L1: "for_each (periods_of N) (\<lambda>p. print
            (try_bind (np_max (last_n p (HIGH (data s)))) (\<lambda>h.
             try_bind (np_min (last_n p (LOW (data s)))) (\<lambda>l.
             Inr (price_window p (np_mean (last_n p (CLOSE (data s)))) (Some h) (Some l)))))) s'
      = Inr (s'\<lparr>fp := fp s' @ map (\<lambda>p. price_window p (np_mean (last_n p (CLOSE (data s))))
         (Some (Max (set (last_n p (HIGH (data s))))))
         (Some (Min (set (last_n p (LOW (data s))))))) (periods_of N)\<rparr>)" for s'
    by (rule for_each_print) (simp add: np_max_eq np_min_eq ne pos)
  have L2: "for_each (periods_of N) (\<lambda>p. print
            (try_bind (np_max (last_n p (HIGH (data s)))) (\<lambda>h.
             try_bind (np_min (last_n p (LOW (data s)))) (\<lambda>l.
             Inr [Lit ''- '', Dec p, Lit ''-day amplitude: '',
                  Flt P2 (fsub (fdiv (Some h) l) 1)])))) s'
      = Inr (s'\<lparr>fp := fp s' @ map (\<lambda>p. [Lit ''- '', Dec p, Lit ''-day amplitude: '',
         Flt P2 (fsub (fdiv (Some (Max (set (last_n p (HIGH (data s))))))
           (Min (set (last_n p (LOW (data s)))))) 1)]) (periods_of N)\<rparr>)" for s'
    by (rule for_each_print) (simp add: np_max_eq np_min_eq ne pos)
  have L3: "for_each (periods_of N) (\<lambda>p. print
            (try_bind (py_get (CLOSE (data s)) (- 1)) (\<lambda>c.
             try_bind (py_get (CLOSE (data s)) (- int p)) (\<lambda>cp.
             Inr [Lit ''- '', Dec p, Lit ''-day cumulative: '',
                  Flt F2 (fmul (fsub (fdiv (Some c) cp) 1) 100), Lit ''%''])))) s'
      = Inr (s'\<lparr>fp := fp s' @ map (\<lambda>p. [Lit ''- '', Dec p, Lit ''-day cumulative: '',
         Flt F2 (fmul (fsub (fdiv (Some (last (CLOSE (data s))))
           (CLOSE (data s) ! (N - p))) 1) 100), Lit ''%'']) (periods_of N)\<rparr>)" for s'
    by (rule for_each_print) (simp add: cback py_get_last ne)
  have L4: "for_each (periods_of N) (\<lambda>p. print
            (Inr (volume_window p (fdiv (np_mean (last_n p (VOLUME (data s)))) 1000000)))) s'
      = Inr (s'\<lparr>fp := fp s' @ map (\<lambda>p. volume_window p
           (fdiv (np_mean (last_n p (VOLUME (data s)))) 1000000)) (periods_of N)\<rparr>)" for s'
    by (rule for_each_print) simp
  have L5: "for_each (periods_of N) (\<lambda>p. block
            [print
               (try_bind (py_get (TCAP (data s)) (- 1)) (\<lambda>t.
                Inr [Lit ''- '', Dec p, Lit ''-day mean turnover: '',
                     Flt P2 (fdiv (np_mean (last_n p (VOLUME (data s)))) t)])),
             print
               (try_bind (py_get (TCAP (data s)) (- 1)) (\<lambda>t.
                Inr [Lit ''- '', Dec p, Lit ''-day total turnover: '',
                     Flt P2 (fdiv (Some (np_sum (last_n p (VOLUME (data s))))) t)]))]) s'
      = Inr (s'\<lparr>fp := fp s' @ concat (map (\<lambda>p.
        [[Lit ''- '', Dec p, Lit ''-day mean turnover: '',
          Flt P2 (fdiv (np_mean (last_n p (VOLUME (data s)))) (last (TCAP (data s))))],
         [Lit ''- '', Dec p, Lit ''-day total turnover: '',
          Flt P2 (fdiv (Some (np_sum (last_n p (VOLUME (data s))))) (last (TCAP (data s))))]])
        (periods_of N))\<rparr>)" for s'
    by (rule for_each_print2) (simp_all add: py_get_last ne)
  show ?thesis
    unfolding build_trading_data_def Let_def reading_def per
    unfolding L1 L2 L3 L4 L5
    by (simp add: py_get_last ne two)
qed

lemma periods_of_conj:
  "(w \<in> {5, 20, 60, 120, 240} \<and> w \<le> N \<and> R) \<longleftrightarrow> (w \<in> set (periods_of N) \<and> R)"
  by (auto simp: periods_of_def)

lemma np_mean_last_n:
  assumes "0 < p" and "p \<le> length xs"
  shows "np_mean (last_n p xs) = Some (sum_list (drop (length xs - p) xs) / real p)"
proof -
  have "length (last_n p xs) = p"
    using assms by (simp add: last_n_def)
  moreover have "last_n p xs \<noteq> []"
    using assms by auto
  ultimately show ?thesis
    by (simp add: np_mean_def) (simp add: last_n_def)
qed


text \<open>
  C1. In a bundle whose close, high, low, volume and capitalisation series all have
  length \<open>N\<close>, the trading-data section has a price line and a volume line for a window
  size \<open>w\<close> exactly when \<open>w\<close> is one of 5, 20, 60, 120, 240 and \<open>w \<le> N\<close>. The price line
  carries the mean of the last \<open>w\<close> closes, the maximum of the last \<open>w\<close> highs and the
  minimum of the last \<open>w\<close> lows; the volume line carries the mean of the last \<open>w\<close>
  volumes, in the unit of the section (divided by 10^6). With fewer than two
  observations the section is not produced at all (see C6).
\<close>

theorem trading_windows:
  assumes "length (CLOSE (data s)) = N" and "length (HIGH (data s)) = N"
    and "length (LOW (data s)) = N" and "length (VOLUME (data s)) = N"
    and "length (TCAP (data s)) = N" and "2 \<le> N"
  shows "\<exists>ls. build_trading_data s = Inr (s\<lparr>fp := fp s @ ls\<rparr>) \<and>
    (\<forall>w m h l. price_window w m h l \<in> set ls \<longleftrightarrow>
       w \<in> {5, 20, 60, 120, 240} \<and> w \<le> N \<and>
       m = Some (sum_list (drop (N - w) (CLOSE (data s))) / real w) \<and>
       h = Some (Max (set (drop (N - w) (HIGH (data s))))) \<and>
       l = Some (Min (set (drop (N - w) (LOW (data s)))))) \<and>
    (\<forall>w v. volume_window w v \<in> set ls \<longleftrightarrow>
       w \<in> {5, 20, 60, 120, 240} \<and> w \<le> N \<and>
       v = Some (sum_list (drop (N - w) (VOLUME (data s))) / real w / 1000000))"
proof -
  have mean_c: "np_mean (last_n p (CLOSE (data s)))
      = Some (sum_list (drop (N - p) (CLOSE (data s))) / real p)"
    if "p \<in> set (periods_of N)" for p
    using periods_of_pos [OF that] np_mean_last_n [of p "CLOSE (data s)"] assms(1) by simp
  have mean_v: "fdiv (np_mean (last_n p (VOLUME (data s)))) 1000000
      = Some (sum_list (drop (N - p) (VOLUME (data s))) / real p / 1000000)"
    if "p \<in> set (periods_of N)" for p
    using periods_of_pos [OF that] np_mean_last_n [of p "VOLUME (data s)"] assms(4)
    by (simp add: fdiv_def)
  have slices: "last_n p (HIGH (data s)) = drop (N - p) (HIGH (data s))"
      "last_n p (LOW (data s)) = drop (N - p) (LOW (data s))" for p
    using assms(2,3) by (simp_all add: last_n_def)
  show ?thesis
    apply (rule exI, rule conjI, rule trading_ok [OF assms])
    apply (simp only: periods_of_conj)
    apply (intro conjI allI)
     apply (simp add: price_window_def volume_window_def price_today_def image_iff slices
        mean_c cong: conj_cong)
    apply (simp add: price_window_def volume_window_def price_today_def image_iff
        mean_v cong: conj_cong)
    done
qed

text \<open>Six observations, closes 10 to 15: the 5-day window is reported, with mean close
  13, highest high 16 and lowest low 10; the 20-day window is not.\<close>

theorem trading_windows_witness:
  "\<exists>ls. build_trading_data
          \<lparr>fp = [], data = example_bundle [10, 11, 12, 13, 14, 15] 2 [ts_2022_12_31, ts_2023_12_31]\<rparr>
        = Inr \<lparr>fp = ls,
               data = example_bundle [10, 11, 12, 13, 14, 15] 2 [ts_2022_12_31, ts_2023_12_31]\<rparr> \<and>
     price_window 5 (Some 13) (Some 16) (Some 10) \<in> set ls \<and>
     volume_window 5 (Some 2) \<in> set ls \<and>
     (\<forall>m h l. price_window 20 m h l \<notin> set ls) \<and>
     (\<forall>v. volume_window 20 v \<notin> set ls)"
proof -
  let ?s = "\<lparr>fp = [], data = example_bundle [10, 11, 12, 13, 14, 15] 2 [ts_2022_12_31, ts_2023_12_31]\<rparr>"
  have "length (CLOSE (data ?s)) = 6" "length (HIGH (data ?s)) = 6" "length (LOW (data ?s)) = 6"
    "length (VOLUME (data ?s)) = 6" "length (TCAP (data ?s)) = 6" "(2::nat) \<le> 6"
    by (simp_all add: example_bundle_def)
  from trading_windows [OF this] show ?thesis
    apply (elim exE conjE)
    subgoal for ls
      apply (rule exI [of _ ls])
      apply (simp add: example_bundle_def)
      done
    done
qed

section \<open>Statements only append to the stream\<close>

lemma writesI:
  "(\<And>s s'. st s = Inr s' \<Longrightarrow> \<exists>ls. s' = s\<lparr>fp := fp s @ ls\<rparr> \<and> list_all P ls) \<Longrightarrow> writes P st"
  by (simp add: writes_def)

lemma writesD:
  "writes P st \<Longrightarrow> st s = Inr s' \<Longrightarrow> \<exists>ls. s' = s\<lparr>fp := fp s @ ls\<rparr> \<and> list_all P ls"
  by (simp add: writes_def)

lemma writes_print: "(\<And>l. e = Inr l \<Longrightarrow> P l) \<Longrightarrow> writes P (print e)"
  by (cases e) (auto simp: writes_def)

lemma writes_skip: "writes P Inr"
  unfolding writes_def
proof (intro allI impI)
  fix s s' :: store
  assume "Inr s = (Inr s' :: error + store)"
  then have "s' = s\<lparr>fp := fp s @ []\<rparr>" by simp
  then show "\<exists>ls. s' = s\<lparr>fp := fp s @ ls\<rparr> \<and> list_all P ls"
    by (intro exI [of _ "[]"]) simp
qed

lemma writes_seq:
  assumes a: "writes P st" and b: "writes P rest"
  shows "writes P (\<lambda>s. case st s of Inl e \<Rightarrow> Inl e | Inr s' \<Rightarrow> rest s')"
proof (rule writesI)
  fix s s'
  assume run: "(case st s of Inl e \<Rightarrow> Inl e | Inr s' \<Rightarrow> rest s') = Inr s'"
  then obtain s1 where s1: "st s = Inr s1" and s2: "rest s1 = Inr s'"
    by (cases "st s") auto
  from writesD [OF a s1] obtain l1 where l1: "s1 = s\<lparr>fp := fp s @ l1\<rparr>" "list_all P l1"
    by blast
  from writesD [OF b s2] obtain l2 where l2: "s' = s1\<lparr>fp := fp s1 @ l2\<rparr>" "list_all P l2"
    by blast
  have "s' = s\<lparr>fp := fp s @ (l1 @ l2)\<rparr>"
    using l1(1) l2(1) by simp
  moreover have "list_all P (l1 @ l2)"
    using l1(2) l2(2) by simp
  ultimately show "\<exists>ls. s' = s\<lparr>fp := fp s @ ls\<rparr> \<and> list_all P ls"
    by blast
qed

lemma writes_for_each:
  "(\<And>x. x \<in> set xs \<Longrightarrow> writes P (body x)) \<Longrightarrow> writes P (for_each xs body)"
proof (induction xs)
  case Nil
  have "for_each [] body = Inr" by (rule ext) simp
  then show ?case by (simp add: writes_skip)
next
  case (Cons x xs)
  have eq: "for_each (x # xs) body
      = (\<lambda>s. case body x s of Inl e \<Rightarrow> Inl e | Inr s' \<Rightarrow> for_each xs body s')"
    by (rule ext) simp
  show ?case
    unfolding eq by (rule writes_seq) (simp_all add: Cons)
qed

lemma writes_block: "(\<And>st. st \<in> set sts \<Longrightarrow> writes P st) \<Longrightarrow> writes P (block sts)"
  unfolding block_def by (rule writes_for_each)

lemma writes_reading: "(\<And>raw. writes P (f raw)) \<Longrightarrow> writes P (reading f)"
  by (auto simp: writes_def reading_def)

lemma writes_assign: "(\<And>x. m = Inr x \<Longrightarrow> writes P (f x)) \<Longrightarrow> writes P (assign m f)"
  by (cases m) (auto simp: writes_def assign_def)

lemmas writes_intros =
  writes_print writes_skip writes_for_each writes_block writes_reading writes_assign

lemma writes_trading: "writes (\<lambda>_. True) build_trading_data"
  unfolding build_trading_data_def Let_def
  by (intro writes_reading writes_block) (auto intro!: writes_intros)

lemma writes_technical: "writes (\<lambda>_. True) (build_technical_data env)"
  unfolding build_technical_data_def Let_def
  by (auto intro!: writes_intros split: prod.splits)

lemma writes_basic: "writes (\<lambda>_. True) (build_basic_data env symbol)"
  unfolding build_basic_data_def Let_def
  by (auto intro!: writes_intros split: prod.splits)

lemma writes_financial: "writes (\<lambda>_. True) (build_financial_data env)"
  unfolding build_financial_data_def Let_def
  by (auto intro!: writes_intros split: prod.splits)

lemma writes_run: "writes (\<lambda>_. True) (run_builders env symbol)"
  unfolding run_builders_def
  by (rule writes_block) (auto simp: writes_basic writes_trading writes_technical writes_financial)

section \<open>The fundamentals section\<close>

lemma range_down_nat: "range_down (int M - 1) 0 = map int (rev [1..<M])"
  by (auto simp: range_down_def list_eq_iff_nth_eq rev_nth)

lemma py_get_nat: "i < length xs \<Longrightarrow> py_get xs (int i) = Inr (xs ! i)"
  by (simp add: py_get_def)

lemma collect_map_Inr:
  "(\<And>x. x \<in> set xs \<Longrightarrow> f x = Inr (g x)) \<Longrightarrow> collect (map f xs) = Inr (map g xs)"
  by (induction xs) simp_all

lemma fin_step_keep:
  assumes "i < length (FIN_DATE fin)" and "\<not> year_end env fin i \<or> 5 \<le> years"
  shows "fin_step env fin 5 (int i) (rows, years) = Inr (rows, years)"
  using assms by (auto simp: fin_step_def py_get_nat year_end_def Let_def)

lemma fin_step_add:
  assumes "i < length (FIN_DATE fin)" and "year_end env fin i" and "years < 5"
    and "length (FIN_MR fin) = length (FIN_DATE fin)"
    and "length (FIN_NP fin) = length (FIN_DATE fin)"
    and "length (FIN_EPS fin) = length (FIN_DATE fin)"
    and "length (FIN_NAVPS fin) = length (FIN_DATE fin)"
    and "length (FIN_ROE fin) = length (FIN_DATE fin)"
  shows "fin_step env fin 5 (int i) (rows, years)
    = Inr (rows @ [fin_row_at env fin i], Suc years)"
proof -
  have "collect (map (\<lambda>(_, field, divisor).
           try_bind (py_get (field fin) (int i)) (\<lambda>v. Inr (v / divisor))) fields)
      = Inr (map (\<lambda>(_, field, divisor). field fin ! i / divisor) fields)"
    using assms by (simp add: fields_def py_get_nat)
  then show ?thesis
    using assms(1-3) by (simp add: fin_step_def py_get_nat year_end_def Let_def fin_row_at_def)
qed

lemma fin_loop:
  assumes "length (FIN_MR fin) = length (FIN_DATE fin)"
    and "length (FIN_NP fin) = length (FIN_DATE fin)"
    and "length (FIN_EPS fin) = length (FIN_DATE fin)"
    and "length (FIN_NAVPS fin) = length (FIN_DATE fin)"
    and "length (FIN_ROE fin) = length (FIN_DATE fin)"
    and "\<forall>i\<in>set is. i < length (FIN_DATE fin)"
  shows "\<exists>n. for_each (map int is) (fin_step env fin 5) (rows, length rows)
    = Inr (rows @ take (5 - length rows) (map (fin_row_at env fin) (filter (year_end env fin) is)), n)"
  using assms(6)
proof (induction "is" arbitrary: rows)
  case Nil
  then show ?case by simp
next
  case (Cons i "is")
  then have i: "i < length (FIN_DATE fin)" and rest: "\<forall>i\<in>set is. i < length (FIN_DATE fin)"
    by simp_all
  show ?case
  proof (cases "year_end env fin i \<and> length rows < 5")
    case True
    then have step: "fin_step env fin 5 (int i) (rows, length rows)
        = Inr (rows @ [fin_row_at env fin i], length (rows @ [fin_row_at env fin i]))"
      using fin_step_add [OF i _ _ assms(1-5)] by simp
    from Cons.IH [OF rest, of "rows @ [fin_row_at env fin i]"] obtain n where
      "for_each (map int is) (fin_step env fin 5)
          (rows @ [fin_row_at env fin i], length (rows @ [fin_row_at env fin i]))
        = Inr ((rows @ [fin_row_at env fin i])
            @ take (5 - length (rows @ [fin_row_at env fin i]))
                (map (fin_row_at env fin) (filter (year_end env fin) is)), n)" ..
    moreover have "5 - length rows = Suc (5 - length (rows @ [fin_row_at env fin i]))"
      using True by (simp, arith)
    ultimately show ?thesis
      using True step by simp
  next
    case False
    then have step: "fin_step env fin 5 (int i) (rows, length rows) = Inr (rows, length rows)"
      using fin_step_keep [OF i] by auto
    from Cons.IH [OF rest, of rows] obtain n where
      "for_each (map int is) (fin_step env fin 5) (rows, length rows)
        = Inr (rows @ take (5 - length rows)
            (map (fin_row_at env fin) (filter (year_end env fin) is)), n)" ..
    then show ?thesis
      using False step by auto
  qed
qed

lemma fin_rows_eq:
  assumes "length (FIN_MR fin) = length (FIN_DATE fin)"
    and "length (FIN_NP fin) = length (FIN_DATE fin)"
    and "length (FIN_EPS fin) = length (FIN_DATE fin)"
    and "length (FIN_NAVPS fin) = length (FIN_DATE fin)"
    and "length (FIN_ROE fin) = length (FIN_DATE fin)"
  shows "\<exists>n. fin_rows env fin = Inr (year_end_rows env fin, n)"
  using fin_loop [OF assms, of "rev [1..<length (FIN_DATE fin)]" env "[]"]
  by (simp add: fin_rows_def range_down_nat year_end_rows_def)

lemma fin_loop_none:
  assumes "\<forall>i\<in>set is. i < length (FIN_DATE fin) \<and> \<not> year_end env fin i"
  shows "for_each (map int is) (fin_step env fin 5) st = Inr st"
  using assms
proof (induction "is")
  case Nil
  then show ?case by simp
next
  case (Cons i "is")
  then have "fin_step env fin 5 (int i) st = Inr st"
    using fin_step_keep [of i fin env "snd st" "fst st"] by simp
  with Cons show ?case by simp
qed

lemma year_end_dates:
  "map fst (year_end_rows env fin)
    = take 5 (filter (\<lambda>d. month d = 12) (rev (tl (map (fromtimestamp env) (FIN_DATE fin)))))"
proof -
  have idx: "rev (tl (map (fromtimestamp env) (FIN_DATE fin)))
      = map (\<lambda>i. fromtimestamp env (FIN_DATE fin ! i)) (rev [1..<length (FIN_DATE fin)])"
    by (auto simp: list_eq_iff_nth_eq rev_nth nth_tl)
  have "filter (\<lambda>d. month d = 12) (rev (tl (map (fromtimestamp env) (FIN_DATE fin))))
      = map (\<lambda>i. fromtimestamp env (FIN_DATE fin ! i))
          (filter (year_end env fin) (rev [1..<length (FIN_DATE fin)]))"
    unfolding idx by (simp add: filter_map o_def year_end_def [abs_def])
  then show ?thesis
    by (simp add: year_end_rows_def take_map fin_row_at_def [abs_def] o_def)
qed

lemma year_end_rows_width: "r \<in> set (year_end_rows env fin) \<Longrightarrow> length (snd r) = 5"
  by (auto simp: year_end_rows_def fin_row_at_def fields_def dest!: in_set_takeD)

lemma financial_ok:
  assumes "length (FIN_MR (DS_FINANCE (data s))) = length (FIN_DATE (DS_FINANCE (data s)))"
    and "length (FIN_NP (DS_FINANCE (data s))) = length (FIN_DATE (DS_FINANCE (data s)))"
    and "length (FIN_EPS (DS_FINANCE (data s))) = length (FIN_DATE (DS_FINANCE (data s)))"
    and "length (FIN_NAVPS (DS_FINANCE (data s))) = length (FIN_DATE (DS_FINANCE (data s)))"
    and "length (FIN_ROE (DS_FINANCE (data s))) = length (FIN_DATE (DS_FINANCE (data s)))"
    and "year_end_rows env (DS_FINANCE (data s)) \<noteq> []"
  shows "build_financial_data env s = Inr (s\<lparr>fp := fp s @
    [[Lit ''# financial data''], [],
     fin_header (year_end_rows env (DS_FINANCE (data s))),
     [Lit (concat (replicate (length (year_end_rows env (DS_FINANCE (data s))) + 1) ''| --- '')
        @ ''|'')]]
    @ map (\<lambda>i. fin_metric (fst (fields ! (i - 1)))
         (map (\<lambda>r. snd r ! (i - 1)) (year_end_rows env (DS_FINANCE (data s))))) [1..<6]
    @ [[]]\<rparr>)"
proof -
  let ?rows = "year_end_rows env (DS_FINANCE (data s))"
  obtain n where rows: "fin_rows env (DS_FINANCE (data s)) = Inr (?rows, n)"
    using fin_rows_eq [OF assms(1-5)] by blast
  obtain r0 rest where r0: "?rows = r0 # rest"
    using assms(6) by (cases ?rows) auto
  have w0: "length (snd r0) = 5"
    using year_end_rows_width [of r0 env "DS_FINANCE (data s)"] r0 by simp
  have first: "py_get ?rows 0 = Inr r0"
    by (simp add: r0 py_get_def)
  have cells: "collect (map (\<lambda>r. py_get (snd r) (int i - 1)) ?rows)
      = Inr (map (\<lambda>r. snd r ! (i - 1)) ?rows)" if "i \<in> set [1..<6]" for i
  proof (rule collect_map_Inr)
    fix r assume "r \<in> set ?rows"
    then have "length (snd r) = 5" by (rule year_end_rows_width)
    with that py_get_nat [of "i - 1" "snd r"] show "py_get (snd r) (int i - 1) = Inr (snd r ! (i - 1))"
      by (auto simp: of_nat_diff)
  qed
  have name: "py_get fields (int i - 1) = Inr (fields ! (i - 1))" if "i \<in> set [1..<6]" for i
    using that py_get_nat [of "i - 1" fields] by (auto simp: of_nat_diff fields_def)
  have loop: "for_each [Suc 0..<6] (\<lambda>i. print
        (try_bind (py_get fields (int i - 1)) (\<lambda>f.
         try_bind (collect (map (\<lambda>r. py_get (snd r) (int i - 1)) ?rows)) (\<lambda>vs.
         Inr (fin_metric (fst f) vs))))) s'
      = Inr (s'\<lparr>fp := fp s' @ map (\<lambda>i. fin_metric (fst (fields ! (i - 1)))
           (map (\<lambda>r. snd r ! (i - 1)) ?rows)) [Suc 0..<6]\<rparr>)" for s'
    by (rule for_each_print) (simp add: cells name)
  show ?thesis
    unfolding build_financial_data_def
    by (simp add: rows first w0 range_up_def loop del: upt_Suc)
qed

lemma financial_fault:
  assumes "\<forall>i\<in>set [1..<length (FIN_DATE (DS_FINANCE (data s)))].
      \<not> year_end env (DS_FINANCE (data s)) i"
  shows "build_financial_data env s = Inl IndexError"
proof -
  have "fin_rows env (DS_FINANCE (data s)) = Inr ([], 0)"
    unfolding fin_rows_def range_down_nat
    by (rule fin_loop_none) (use assms in auto)
  then show ?thesis
    by (simp add: build_financial_data_def py_get_def)
qed

lemma run_builders_fault:
  assumes "\<And>s. data s = raw_data \<Longrightarrow> build_financial_data env s = Inl IndexError"
  shows "\<exists>e. run_builders env symbol \<lparr>fp = ls, data = raw_data\<rparr> = Inl e"
proof -
  let ?s = "\<lparr>fp = ls, data = raw_data\<rparr>"
  show ?thesis
  proof (cases "build_basic_data env symbol ?s")
    case (Inl e)
    then show ?thesis by (simp add: run_builders_def)
  next
    case s1: (Inr s1)
    from writesD [OF writes_basic s1] have d1: "data s1 = raw_data" by auto
    show ?thesis
    proof (cases "build_trading_data s1")
      case (Inl e)
      with s1 show ?thesis by (simp add: run_builders_def)
    next
      case s2: (Inr s2)
      from writesD [OF writes_trading s2] d1 have d2: "data s2 = raw_data" by auto
      show ?thesis
      proof (cases "build_technical_data env s2")
        case (Inl e)
        with s1 s2 show ?thesis by (simp add: run_builders_def)
      next
        case s3: (Inr s3)
        from writesD [OF writes_technical s3] d2 have "data s3 = raw_data" by auto
        from assms [OF this] s1 s2 s3 show ?thesis by (simp add: run_builders_def)
      qed
    qed
  qed
qed

text \<open>
  C3. A bundle whose fundamentals hold no row with a December reporting date: the claim
  is that the fundamentals table is left out and the report still completes. The
  builder reads \<open>rows[0]\<close> without a check, so on such a bundle it raises IndexError and
  no report is returned.
\<close>

theorem no_year_end_rows_fault:
  assumes "\<forall>t\<in>set (FIN_DATE (DS_FINANCE raw_data)). month (fromtimestamp env t) \<noteq> 12"
  shows "build_financial_data env \<lparr>fp = ls, data = raw_data\<rparr> = Inl IndexError \<and>
    (\<exists>e. build_stock_data env symbol raw_data = Inl e)"
proof -
  have fault: "build_financial_data env s = Inl IndexError" if "data s = raw_data" for s
    by (rule financial_fault) (use assms that in \<open>auto simp: year_end_def\<close>)
  from run_builders_fault [of raw_data env symbol "[]"] fault
  obtain e where "run_builders env symbol \<lparr>fp = [], data = raw_data\<rparr> = Inl e" by blast
  then have "build_stock_data env symbol raw_data = Inl e"
    by (simp add: build_stock_data_def)
  with fault [of "\<lparr>fp = ls, data = raw_data\<rparr>"] show ?thesis by auto
qed

text \<open>Reports of March, June and September 2023 only.\<close>

theorem no_year_end_rows_fault_witness:
  "build_financial_data example_env
     \<lparr>fp = [], data = example_bundle [10, 12] 2 [ts_2023_03_31, ts_2023_06_30, ts_2023_09_30]\<rparr>
     = Inl IndexError \<and>
   (\<exists>e. build_stock_data example_env ''600000''
      (example_bundle [10, 12] 2 [ts_2023_03_31, ts_2023_06_30, ts_2023_09_30]) = Inl e)"
  using no_year_end_rows_fault [of "example_bundle [10, 12] 2 [ts_2023_03_31, ts_2023_06_30, ts_2023_09_30]"
      example_env "[]" "''600000''"]
  by (simp add: example_bundle_def example_fin_def example_env_def example_dates)

text \<open>
  C4. The claim is that the year columns are the most recent \<open>min(5, D)\<close> December rows of
  the whole reporting history. The loop runs over \<open>range(len(dates) - 1, 0, -1)\<close>, which
  stops before index 0: on aligned fundamentals arrays the columns are the first five
  December rows of the history read backwards without its oldest entry.
\<close>

theorem fiscal_year_columns:
  assumes "length (FIN_MR (DS_FINANCE (data s))) = length (FIN_DATE (DS_FINANCE (data s)))"
    and "length (FIN_NP (DS_FINANCE (data s))) = length (FIN_DATE (DS_FINANCE (data s)))"
    and "length (FIN_EPS (DS_FINANCE (data s))) = length (FIN_DATE (DS_FINANCE (data s)))"
    and "length (FIN_NAVPS (DS_FINANCE (data s))) = length (FIN_DATE (DS_FINANCE (data s)))"
    and "length (FIN_ROE (DS_FINANCE (data s))) = length (FIN_DATE (DS_FINANCE (data s)))"
    and "filter (\<lambda>d. month d = 12)
           (tl (map (fromtimestamp env) (FIN_DATE (DS_FINANCE (data s))))) \<noteq> []"
  shows "\<exists>rows body. build_financial_data env s
      = Inr (s\<lparr>fp := fp s @ [[Lit ''# financial data''], [], fin_header rows] @ body\<rparr>) \<and>
    map fst rows = take 5 (filter (\<lambda>d. month d = 12)
      (rev (tl (map (fromtimestamp env) (FIN_DATE (DS_FINANCE (data s)))))))"
proof -
  let ?rows = "year_end_rows env (DS_FINANCE (data s))"
  have dates: "map fst ?rows = take 5 (filter (\<lambda>d. month d = 12)
      (rev (tl (map (fromtimestamp env) (FIN_DATE (DS_FINANCE (data s)))))))"
    by (rule year_end_dates)
  have "filter (\<lambda>d. month d = 12)
      (rev (tl (map (fromtimestamp env) (FIN_DATE (DS_FINANCE (data s)))))) \<noteq> []"
    using assms(6) by (simp add: filter_empty_conv)
  with dates have "?rows \<noteq> []"
    by (metis list.map_disc_iff take_eq_Nil zero_neq_numeral)
  from financial_ok [OF assms(1-5) this] dates show ?thesis
    by (intro exI [of _ ?rows]) auto
qed

text \<open>Reports of December 2022 and December 2023: the table has the one column 2023.\<close>

theorem fiscal_year_columns_witness:
  "\<exists>rows body. build_financial_data example_env
        \<lparr>fp = [], data = example_bundle [10, 12] 2 [ts_2022_12_31, ts_2023_12_31]\<rparr>
      = Inr \<lparr>fp = [[Lit ''# financial data''], [], fin_header rows] @ body,
             data = example_bundle [10, 12] 2 [ts_2022_12_31, ts_2023_12_31]\<rparr> \<and>
    map fst rows = [\<lparr>year = 2023, month = 12, day = 31\<rparr>]"
  using fiscal_year_columns [of
      "\<lparr>fp = [], data = example_bundle [10, 12] 2 [ts_2022_12_31, ts_2023_12_31]\<rparr>" example_env]
  by (simp add: example_bundle_def example_fin_def example_env_def example_dates)

section \<open>The technical-indicator section\<close>

lemma py_get_back:
  "k < length xs \<Longrightarrow> py_get xs (- 1 - int k) = Inr (xs ! (length xs - Suc k))"
  by (auto simp: py_get_def nat_diff_distrib' intro!: arg_cong [where f = "nth xs"])

lemma range_down_rows:
  "range_down (- 1) (max (- int N) (- 31)) = map (\<lambda>k. - 1 - int k) [0..<min 30 (N - 1)]"
proof -
  have "nat (- 1 - max (- int N) (- 31)) = min 30 (N - 1)"
    by (auto simp: max_def min_def)
  then show ?thesis
    by (simp add: range_down_def)
qed

lemma technical_absent:
  "length (CLOSE (data s)) < 30 \<Longrightarrow> build_technical_data env s = Inr s"
  by (simp add: build_technical_data_def)

lemma technical_ok:
  assumes "length (CLOSE (data s)) = N" and "length (DATE (data s)) = N" and "30 \<le> N"
    and "\<forall>c\<in>set (indicator_columns env (CLOSE (data s)) (HIGH (data s)) (LOW (data s))).
           length c = N"
  shows "\<exists>header rule. build_technical_data env s = Inr (s\<lparr>fp := fp s @
    [[Lit ''# technical indicators (last 30 days)''], [], [Lit header], [Lit rule]]
    @ map (\<lambda>k. tech_row (fromtimestamp env (DATE (data s) ! (N - Suc k)))
        (map (\<lambda>c. c ! (N - Suc k))
           (indicator_columns env (CLOSE (data s)) (HIGH (data s)) (LOW (data s)))))
        [0..<min 30 (N - 1)]
    @ [[]]\<rparr>)"
proof -
  obtain kdj_k kdj_d kdj_j where kdj:
    "KDJ env (CLOSE (data s)) (HIGH (data s)) (LOW (data s)) 9 3 = (kdj_k, kdj_d, kdj_j)"
    by (cases "KDJ env (CLOSE (data s)) (HIGH (data s)) (LOW (data s)) 9 3") auto
  obtain macd_diff macd_dea where macd:
    "MACD env (CLOSE (data s)) 12 26 9 = (macd_diff, macd_dea)"
    by (cases "MACD env (CLOSE (data s)) 12 26 9") auto
  obtain bb_upper bb_middle bb_lower where bb:
    "BBANDS_T3 env (CLOSE (data s)) = (bb_upper, bb_middle, bb_lower)"
    by (cases "BBANDS_T3 env (CLOSE (data s))") auto
  let ?cols = "[kdj_k, kdj_d, kdj_j, macd_diff, macd_dea,
         RSI env (CLOSE (data s)) 6, RSI env (CLOSE (data s)) 12, RSI env (CLOSE (data s)) 24,
         bb_upper, bb_middle, bb_lower]"
  let ?columns = "[(''KDJ.K'', kdj_k), (''KDJ.D'', kdj_d), (''KDJ.J'', kdj_j),
                     (''MACD DIF'', macd_diff), (''MACD DEA'', macd_dea),
                     (''RSI(6)'', RSI env (CLOSE (data s)) 6),
                     (''RSI(12)'', RSI env (CLOSE (data s)) 12),
                     (''RSI(24)'', RSI env (CLOSE (data s)) 24),
                     (''BBands Upper'', bb_upper), (''BBands Middle'', bb_middle),
                     (''BBands Lower'', bb_lower)]"
  have cols: "indicator_columns env (CLOSE (data s)) (HIGH (data s)) (LOW (data s)) = ?cols"
    by (simp add: indicator_columns_def kdj macd bb)
  have lens: "\<forall>c\<in>set ?cols. length c = N"
    using assms(4) unfolding cols .
  have row: "try_bind (py_get (map (fromtimestamp env) (DATE (data s))) i) (\<lambda>d.
               try_bind (collect (map (\<lambda>c. py_get (snd c) i) ?columns)) (\<lambda>vs.
               Inr (tech_row d vs)))
      = Inr (tech_row (fromtimestamp env (DATE (data s) ! (N - Suc k)))
           (map (\<lambda>c. c ! (N - Suc k)) ?cols))"
    if "k < N" and "i = - 1 - int k" for i k
    using that lens assms(2) by (simp add: py_get_back)
  have loop: "for_each (map (\<lambda>k. - 1 - int k) [0..<min 30 (N - 1)]) (\<lambda>i. print
           (try_bind (py_get (map (fromtimestamp env) (DATE (data s))) i) (\<lambda>d.
            try_bind (collect (map (\<lambda>c. py_get (snd c) i) ?columns)) (\<lambda>vs.
            Inr (tech_row d vs))))) s'
      = Inr (s'\<lparr>fp := fp s' @ map (\<lambda>i. tech_row
             (fromtimestamp env (DATE (data s) ! (N - Suc (nat (- 1 - i)))))
             (map (\<lambda>c. c ! (N - Suc (nat (- 1 - i)))) ?cols))
           (map (\<lambda>k. - 1 - int k) [0..<min 30 (N - 1)])\<rparr>)" for s'
  proof (rule for_each_print)
    fix i assume "i \<in> set (map (\<lambda>k. - 1 - int k) [0..<min 30 (N - 1)])"
    then obtain k where k: "k < min 30 (N - 1)" "i = - 1 - int k" by auto
    then have "k < N" by arith
    from row [OF this k(2)] k(2) show "try_bind (py_get (map (fromtimestamp env) (DATE (data s))) i) (\<lambda>d.
               try_bind (collect (map (\<lambda>c. py_get (snd c) i) ?columns)) (\<lambda>vs.
               Inr (tech_row d vs)))
      = Inr (tech_row (fromtimestamp env (DATE (data s) ! (N - Suc (nat (- 1 - i)))))
           (map (\<lambda>c. c ! (N - Suc (nat (- 1 - i)))) ?cols))"
      by simp
  qed
  have nlt: "\<not> length (CLOSE (data s)) < 30"
    using assms(1,3) by simp
  have frame: "data (s'\<lparr>fp := x\<rparr>) = data s'" for s' :: store and x
    by simp
  show ?thesis
    unfolding build_technical_data_def cols
    apply (simp only: Let_def reading_simp nlt if_False block_Cons block_Nil print_Inr
        sum.case frame kdj macd bb prod.case length_map assms(2) range_down_rows loop)
    apply (intro exI)
    apply (simp add: o_def)
    done
qed


text \<open>
  C2. The claim is that the section is absent below 30 observations and has
  \<open>min(30, N)\<close> rows from 30 observations on. The rows are those of
  \<open>range(-1, max(-len(date), -31), -1)\<close>: with \<open>N\<close> observations and full-length indicator
  columns the table has \<open>min 30 (N - 1)\<close> rows, newest first, which is 29 when \<open>N = 30\<close>.
  (Below 30 observations the section is absent: \<open>technical_absent\<close>.)
\<close>

theorem technical_rows:
  assumes "length (CLOSE (data s)) = N" and "length (DATE (data s)) = N" and "30 \<le> N"
    and "\<forall>c\<in>set (indicator_columns env (CLOSE (data s)) (HIGH (data s)) (LOW (data s))).
           length c = N"
  shows "\<exists>header rule rows. build_technical_data env s = Inr (s\<lparr>fp := fp s @
      [[Lit ''# technical indicators (last 30 days)''], [], [Lit header], [Lit rule]]
      @ rows @ [[]]\<rparr>) \<and>
    length rows = min 30 (N - 1) \<and>
    (\<forall>k<length rows. \<exists>vs.
       rows ! k = tech_row (fromtimestamp env (DATE (data s) ! (N - 1 - k))) vs)"
proof -
  from technical_ok [OF assms] obtain header rule where
    "build_technical_data env s = Inr (s\<lparr>fp := fp s @
    [[Lit ''# technical indicators (last 30 days)''], [], [Lit header], [Lit rule]]
    @ map (\<lambda>k. tech_row (fromtimestamp env (DATE (data s) ! (N - Suc k)))
        (map (\<lambda>c. c ! (N - Suc k))
           (indicator_columns env (CLOSE (data s)) (HIGH (data s)) (LOW (data s)))))
        [0..<min 30 (N - 1)]
    @ [[]]\<rparr>)"
    by (elim exE)
  then show ?thesis
    by (intro exI conjI, assumption) auto
qed

text \<open>Exactly 30 observations.\<close>

theorem technical_rows_witness:
  "\<exists>header rule rows. build_technical_data example_env
        \<lparr>fp = [], data = example_bundle (replicate 30 10) 2 [ts_2022_12_31, ts_2023_12_31]\<rparr>
      = Inr \<lparr>fp = [[Lit ''# technical indicators (last 30 days)''], [], [Lit header], [Lit rule]]
                 @ rows @ [[]],
             data = example_bundle (replicate 30 10) 2 [ts_2022_12_31, ts_2023_12_31]\<rparr> \<and>
     length rows = 29"
proof -
  let ?s = "\<lparr>fp = [], data = example_bundle (replicate 30 10) 2 [ts_2022_12_31, ts_2023_12_31]\<rparr>"
  have "length (CLOSE (data ?s)) = 30" "length (DATE (data ?s)) = 30" "(30::nat) \<le> 30"
    "\<forall>c\<in>set (indicator_columns example_env (CLOSE (data ?s)) (HIGH (data ?s)) (LOW (data ?s))).
       length c = 30"
    by (simp_all add: example_bundle_def example_env_def indicator_columns_def)
  from technical_rows [OF this] show ?thesis
    apply (elim exE conjE)
    subgoal for header rule rows
      apply (rule exI [of _ header], rule exI [of _ rule], rule exI [of _ rows])
      apply simp
      done
    done
qed

section \<open>The whole report\<close>

lemma fmts_of_append [simp]: "fmts_of (a @ b) = fmts_of a @ fmts_of b"
  by (induction a rule: fmts_of.induct) simp_all







lemma format_ok_simple [simp]:
  "format_ok []" "format_ok [Lit a]" "format_ok [Lit a, Lit b]" "format_ok [Lit a, Dat f d]"
  "format_ok [Lit a, Flt F2 v]" "format_ok [Lit a, Flt P2 v]"
  "format_ok [Lit a, Dec p, Lit b, Flt F2 v]" "format_ok [Lit a, Dec p, Lit b, Flt P2 v]"
  "format_ok [Lit a, Dec p, Lit b, Flt F2 v, Lit c]"
  by (simp_all add: format_ok_def)







lemma report_exists:
  assumes "\<And>s. data s = raw_data \<Longrightarrow> \<exists>ls. build_basic_data env symbol s = Inr (s\<lparr>fp := fp s @ ls\<rparr>)"
    and "\<And>s. data s = raw_data \<Longrightarrow> \<exists>ls. build_trading_data s = Inr (s\<lparr>fp := fp s @ ls\<rparr>)"
    and "\<And>s. data s = raw_data \<Longrightarrow> \<exists>ls. build_technical_data env s = Inr (s\<lparr>fp := fp s @ ls\<rparr>)"
    and "\<And>s. data s = raw_data \<Longrightarrow> \<exists>ls. build_financial_data env s = Inr (s\<lparr>fp := fp s @ ls\<rparr>)"
  shows "\<exists>report. build_stock_data env symbol raw_data = Inr report"
proof -
  let ?s0 = "\<lparr>fp = [], data = raw_data\<rparr>"
  from assms(1) [of ?s0] obtain l1 where
    s1: "build_basic_data env symbol ?s0 = Inr (?s0\<lparr>fp := fp ?s0 @ l1\<rparr>)" by auto
  let ?s1 = "?s0\<lparr>fp := fp ?s0 @ l1\<rparr>"
  from assms(2) [of ?s1] obtain l2 where
    s2: "build_trading_data ?s1 = Inr (?s1\<lparr>fp := fp ?s1 @ l2\<rparr>)" by auto
  let ?s2 = "?s1\<lparr>fp := fp ?s1 @ l2\<rparr>"
  from assms(3) [of ?s2] obtain l3 where
    s3: "build_technical_data env ?s2 = Inr (?s2\<lparr>fp := fp ?s2 @ l3\<rparr>)" by auto
  let ?s3 = "?s2\<lparr>fp := fp ?s2 @ l3\<rparr>"
  from assms(4) [of ?s3] obtain l4 where
    s4: "build_financial_data env ?s3 = Inr (?s3\<lparr>fp := fp ?s3 @ l4\<rparr>)" by auto
  show ?thesis
    using s1 s2 s3 s4 by (simp add: build_stock_data_def run_builders_def)
qed

lemma example_report: "\<exists>report. build_stock_data example_env ''600000'' example_history = Inr report"
proof (rule report_exists)
  fix s :: store assume s: "data s = example_history"
  show "\<exists>ls. build_basic_data example_env ''600000'' s = Inr (s\<lparr>fp := fp s @ ls\<rparr>)"
    by (rule exI, rule basic_ok [where sy = "''600000''" and nm = "''Example Bank''" and others = "[]"])
      (simp_all add: s example_history_def example_bundle_def example_fin_def example_env_def)
  show "\<exists>ls. build_trading_data s = Inr (s\<lparr>fp := fp s @ ls\<rparr>)"
    by (rule exI, rule trading_ok [where N = 6])
      (simp_all add: s example_history_def example_bundle_def)
  show "\<exists>ls. build_technical_data example_env s = Inr (s\<lparr>fp := fp s @ ls\<rparr>)"
    by (rule exI [of _ "[]"])
      (simp add: technical_absent s example_history_def example_bundle_def)
  show "\<exists>ls. build_financial_data example_env s = Inr (s\<lparr>fp := fp s @ ls\<rparr>)"
    by (rule exI, rule financial_ok)
      (simp_all add: s example_history_def example_bundle_def example_fin_def example_env_def
        year_end_rows_def year_end_def example_dates)
qed




text \<open>
  C9. Producing the report never changes the bundle: when \<open>build_stock_data\<close> returns
  the report, the store the four builders leave holds that report as its stream and the
  bundle it was given, every series of it unchanged.
\<close>

theorem report_keeps_bundle:
  assumes "build_stock_data env symbol raw_data = Inr report"
  shows "\<exists>s. run_builders env symbol \<lparr>fp = [], data = raw_data\<rparr> = Inr s \<and>
    fp s = report \<and> data s = raw_data"
proof -
  from assms obtain s where run: "run_builders env symbol \<lparr>fp = [], data = raw_data\<rparr> = Inr s"
    and report: "report = fp s"
    by (auto simp: build_stock_data_def split: sum.splits)
  from writesD [OF writes_run run] have "data s = raw_data"
    by auto
  with run report show ?thesis by simp
qed

text \<open>The report of the example history.\<close>

theorem report_keeps_bundle_witness:
  "\<exists>report s. build_stock_data example_env ''600000'' example_history = Inr report \<and>
     run_builders example_env ''600000'' \<lparr>fp = [], data = example_history\<rparr> = Inr s \<and>
     fp s = report \<and> data s = example_history"
proof -
  from example_report obtain report where
    "build_stock_data example_env ''600000'' example_history = Inr report" ..
  with report_keeps_bundle [OF this] show ?thesis by blast
qed

end
